theory Spec2Isabelle
  imports Main "HOL-Library.Sublist" "HOL-Library.Word"
begin

section \<open>The live preview of ghostwriter: \<open>src/htmlpreview.cpp\<close>\<close>

text \<open>
  A shallow embedding of \<^verbatim>\<open>HtmlPreview\<close> and \<^verbatim>\<open>HtmlPreviewPrivate\<close>:
  the update coordinator (\<^verbatim>\<open>updatePreview\<close>, \<^verbatim>\<open>onHtmlReady\<close>), the
  line diff that places the scroll anchor, the publication of the rendered
  markup, the exporter adapter and the base directory.

  A \<^verbatim>\<open>QString\<close> is a \<open>string\<close>.  The null \<^verbatim>\<open>QString\<close> is told apart from
  the empty one only where the code does so: \<^verbatim>\<open>QTextStream::readLine\<close> returns
  a null string at the end of the stream and an empty, non-null one for an
  empty line, so a line that was read is a \<open>string option\<close> and \<open>None\<close> is the
  null string.  Everywhere else the code tests \<^verbatim>\<open>!isNull() && !isEmpty()\<close>,
  which a null and an empty string fail alike.
\<close>

subsection \<open>Reading lines: \<^verbatim>\<open>QTextStream\<close>\<close>

text \<open>
  \<^verbatim>\<open>QTextStream::readLine\<close> is Qt's.  It returns the characters up to the next
  line feed, without the line feed and without a carriage return right before
  it; a last line with no line feed is returned too (without a carriage return
  that ends it); at the end of the data it returns the null string.  A read-only
  stream over a string is modelled as the list of the lines still to be read.
\<close>

definition chopCR :: "string \<Rightarrow> string" where
  "chopCR cur = (if cur \<noteq> [] \<and> last cur = CHR 0x0D then butlast cur else cur)"

fun scanLines :: "string \<Rightarrow> string \<Rightarrow> string list" where
  "scanLines cur [] = (if cur = [] then [] else [chopCR cur])"
| "scanLines cur (c # cs) =
     (if c = CHR 0x0A then chopCR cur # scanLines [] cs else scanLines (cur @ [c]) cs)"

definition textStream :: "string \<Rightarrow> string list" where
  "textStream s = scanLines [] s"

fun readLine :: "string list \<Rightarrow> string option \<times> string list" where
  "readLine [] = (None, [])"
| "readLine (l # ls) = (Some l, ls)"

subsection \<open>The diff that places the anchor (\<^verbatim>\<open>onHtmlReady\<close>, lines 274 to 317)\<close>

definition anchor :: string where
  \<open>anchor = ''<a id="livepreviewmodifypoint"></a>''\<close>

definition endl :: string where
  "endl = [CHR 0x0A]"

text \<open>
  The first loop.  Its state is the source's: the line last read from the old
  and from the new document, the two streams, \<^verbatim>\<open>differenceFound\<close> and the text
  written to \<^verbatim>\<open>anchoredHtmlDoc\<close> so far.
\<close>

function (sequential) lockstepLoop ::
  "string option \<Rightarrow> string list \<Rightarrow> string option \<Rightarrow> string list \<Rightarrow> bool \<Rightarrow> string
    \<Rightarrow> string option \<times> string option \<times> string list \<times> bool \<times> string" where
  "lockstepLoop (Some oldLine) oldHtmlDoc (Some newLine) newHtmlDoc False anchoredHtml =
     (if oldLine \<noteq> newLine
      then lockstepLoop (Some oldLine) oldHtmlDoc (Some newLine) newHtmlDoc True
             (anchoredHtml @ anchor)
      else lockstepLoop (fst (readLine oldHtmlDoc)) (snd (readLine oldHtmlDoc))
             (fst (readLine newHtmlDoc)) (snd (readLine newHtmlDoc)) False
             (anchoredHtml @ newLine @ endl))"
| "lockstepLoop oldLine oldHtmlDoc newLine newHtmlDoc differenceFound anchoredHtml =
     (oldLine, newLine, newHtmlDoc, differenceFound, anchoredHtml)"
  by pat_completeness auto
termination
  by (relation "measure (\<lambda>(ol, od, nl, nd, df, out).
        2 * (length nd + (case nl of None \<Rightarrow> 0 | Some _ \<Rightarrow> 1)) + (if df then 0 else 1))")
     (auto, (case_tac newHtmlDoc; simp)+)

text \<open>The second loop: what is left of the new document.\<close>

function remainingLoop :: "string option \<Rightarrow> string list \<Rightarrow> bool \<Rightarrow> string \<Rightarrow> bool \<times> string" where
  "remainingLoop None newHtmlDoc differenceFound anchoredHtml = (differenceFound, anchoredHtml)"
| "remainingLoop (Some newLine) newHtmlDoc differenceFound anchoredHtml =
     remainingLoop (fst (readLine newHtmlDoc)) (snd (readLine newHtmlDoc)) True
       ((if \<not> differenceFound then anchoredHtml @ anchor else anchoredHtml) @ newLine @ endl)"
  by pat_completeness auto
termination
  by (relation "measure (\<lambda>(nl, nd, df, out). length nd + (case nl of None \<Rightarrow> 0 | Some _ \<Rightarrow> 1))")
     (auto, (case_tac newHtmlDoc; simp)+)

text \<open>
  The whole scan over the lines of the old and the new document: it returns
  \<^verbatim>\<open>differenceFound\<close> and \<^verbatim>\<open>anchoredHtml\<close>.
\<close>

definition diffAnchor :: "string list \<Rightarrow> string list \<Rightarrow> bool \<times> string" where
  "diffAnchor oldHtmlDoc newHtmlDoc =
     (case lockstepLoop (fst (readLine oldHtmlDoc)) (snd (readLine oldHtmlDoc))
             (fst (readLine newHtmlDoc)) (snd (readLine newHtmlDoc)) False []
      of (oldLine, newLine, newRest, differenceFound, anchoredHtml) \<Rightarrow>
        if \<not> differenceFound \<and> oldLine \<noteq> None \<and> newLine = None
        then remainingLoop newLine newRest True (anchoredHtml @ anchor)
        else remainingLoop newLine newRest differenceFound anchoredHtml)"

text \<open>The text that writing the lines \<open>ls\<close> to the output stream produces.\<close>

definition written :: "string list \<Rightarrow> string" where
  "written ls = concat (map (\<lambda>l. l @ endl) ls)"

subsection \<open>The collaborators\<close>

text \<open>
  Modelled from the spec: the class \<^verbatim>\<open>StringObserver\<close> of \<^verbatim>\<open>stringobserver.h\<close>,
  which is not among the sources.  The specification of the publisher (4.4) says:
  "update the stored value and, only if the value actually changed, emit a change
  notification to all current subscribers".  \<open>textChanged\<close> lists the
  notifications emitted, the oldest first.
\<close>

record StringObserver =
  currentText :: string
  textChanged :: "string list"

definition StringObserver_new :: StringObserver where
  "StringObserver_new = \<lparr>currentText = [], textChanged = []\<rparr>"

definition setText :: "string \<Rightarrow> StringObserver \<Rightarrow> StringObserver" where
  "setText t ob =
     (if currentText ob = t then ob
      else ob\<lparr>currentText := t, textChanged := textChanged ob @ [t]\<rparr>)"

text \<open>
  Modelled from the spec: the class \<^verbatim>\<open>Exporter\<close> of \<^verbatim>\<open>exporter.h\<close>, which is
  not among the sources.  The specification (6) gives its interface:
  "smartTypographyEnabled() -> bool, setSmartTypographyEnabled(bool),
  render(text) -> markup string".  The markup is a function \<open>render\<close> of the
  typography option in effect during the call and of the text; \<open>exported\<close>
  lists the calls of the exporter's \<^verbatim>\<open>exportToHtml\<close>, each with the option it
  ran under.
\<close>

record Exporter =
  smartTypography :: bool
  render :: "bool \<Rightarrow> string \<Rightarrow> string"
  exported :: "(bool \<times> string) list"

definition smartTypographyEnabled :: "Exporter \<Rightarrow> bool" where
  "smartTypographyEnabled e = smartTypography e"

definition setSmartTypographyEnabled :: "bool \<Rightarrow> Exporter \<Rightarrow> Exporter" where
  "setSmartTypographyEnabled b e = e\<lparr>smartTypography := b\<rparr>"

definition Exporter_exportToHtml :: "string \<Rightarrow> Exporter \<Rightarrow> string \<times> Exporter" where
  "Exporter_exportToHtml txt e =
     (render e (smartTypography e) txt,
      e\<lparr>exported := exported e @ [(smartTypography e, txt)]\<rparr>)"

text \<open>
  What the widget reads of its surroundings when a slot runs: its own
  visibility, the document (\<^verbatim>\<open>isEmpty\<close>, \<^verbatim>\<open>toPlainText\<close>, \<^verbatim>\<open>filePath\<close>), and
  the two Qt path functions of \<^verbatim>\<open>updateBaseDir\<close>, which depend on the file
  system: \<open>absolutePath p\<close> is \<^verbatim>\<open>QFileInfo(p).dir().absolutePath()\<close> and
  \<open>fromLocalFile p\<close> is \<^verbatim>\<open>QUrl::fromLocalFile(p).toString()\<close>.
\<close>

record Env =
  isVisible :: bool
  isEmpty :: bool
  toPlainText :: string
  filePath :: string
  absolutePath :: "string \<Rightarrow> string"
  fromLocalFile :: "string \<Rightarrow> string"

subsection \<open>The state of the preview\<close>

text \<open>
  What the widget does to the outside, in the order it does it: a call of
  \<^verbatim>\<open>updatePreview\<close>, a render handed to \<^verbatim>\<open>QtConcurrent::run\<close> (with the text
  it was given), a load of the shell by \<^verbatim>\<open>setHtml\<close> (with the shell and the
  base URL), and a call of \<^verbatim>\<open>setHtmlContent\<close>.
\<close>

datatype Effect =
    UpdatePreviewCalled
  | ExportStarted string
  | SetHtml string string
  | SetHtmlContentCalled string

text \<open>
  The fields of \<^verbatim>\<open>HtmlPreviewPrivate\<close>.  \<open>count\<close> is the static counter of
  \<^verbatim>\<open>setHtmlContent\<close>.  \<open>futures\<close> are the renders started and not yet
  delivered to \<^verbatim>\<open>onHtmlReady\<close>, each with the text and the exporter it was
  started with; \<open>effects\<close> is the log of the effects above.  The heading
  pattern \<^verbatim>\<open>headingTagExp\<close> is set once and never read, and is left out.
\<close>

record HtmlPreview =
  updateInProgress :: bool
  updateAgain :: bool
  vanillaHtml :: string
  livePreviewHtml :: StringObserver
  styleSheet :: StringObserver
  baseUrl :: string
  exporter :: "Exporter option"
  wrapperHtml :: string
  count :: "32 word"
  futures :: "(string \<times> Exporter) list"
  effects :: "Effect list"

subsection \<open>The operations\<close>

definition setHtmlContent :: "string \<Rightarrow> HtmlPreview \<Rightarrow> HtmlPreview" where
  "setHtmlContent html s =
     s\<lparr>count := count s + 1,
       vanillaHtml := html,
       livePreviewHtml := setText html (livePreviewHtml s),
       effects := effects s @ [SetHtmlContentCalled html]\<rparr>"

definition exportToHtml :: "string \<Rightarrow> Exporter \<Rightarrow> string \<times> Exporter" where
  "exportToHtml txt e =
     (let enabled = smartTypographyEnabled e;
          e1 = setSmartTypographyEnabled True e;
          (html, e2) = Exporter_exportToHtml txt e1;
          e3 = setSmartTypographyEnabled enabled e2
      in (html, e3))"

definition updatePreview :: "Env \<Rightarrow> HtmlPreview \<Rightarrow> HtmlPreview" where
  "updatePreview env s0 =
     (let s = s0\<lparr>effects := effects s0 @ [UpdatePreviewCalled]\<rparr> in
      if updateInProgress s then s\<lparr>updateAgain := True\<rparr>
      else if isVisible env then
        (if isEmpty env then setHtmlContent [] s
         else case exporter s of
                None \<Rightarrow> s
              | Some e \<Rightarrow>
                 (let txt = toPlainText env in
                  if txt \<noteq> [] then
                    s\<lparr>updateInProgress := True,
                      futures := futures s @ [(toPlainText env, e)],
                      effects := effects s @ [ExportStarted (toPlainText env)]\<rparr>
                  else s))
      else s)"

text \<open>
  \<^verbatim>\<open>onHtmlReady\<close> up to line 322: the diff of the new render against
  \<^verbatim>\<open>vanillaHtml\<close>, and the publication when a difference was found.
\<close>

definition onHtmlReady_publish :: "string \<Rightarrow> HtmlPreview \<Rightarrow> HtmlPreview" where
  "onHtmlReady_publish html s =
     (case diffAnchor (textStream (vanillaHtml s)) (textStream html) of
        (differenceFound, anchoredHtml) \<Rightarrow>
          if differenceFound then (setHtmlContent anchoredHtml s)\<lparr>vanillaHtml := html\<rparr>
          else s)"

text \<open>
  The whole of \<^verbatim>\<open>onHtmlReady\<close>; \<open>html\<close> is \<^verbatim>\<open>futureWatcher->result()\<close>.
\<close>

definition onHtmlReady :: "Env \<Rightarrow> string \<Rightarrow> HtmlPreview \<Rightarrow> HtmlPreview" where
  "onHtmlReady env html s =
     (let s1 = onHtmlReady_publish html s;
          s2 = s1\<lparr>updateInProgress := False\<rparr>
      in if updateAgain s2 then updatePreview env (s2\<lparr>updateAgain := False\<rparr>) else s2)"

definition updateBaseDir :: "Env \<Rightarrow> HtmlPreview \<Rightarrow> HtmlPreview" where
  "updateBaseDir env s =
     (let s1 = s\<lparr>baseUrl :=
                  (if filePath env \<noteq> []
                   then fromLocalFile env (absolutePath env (filePath env) @ ''/'')
                   else [])\<rparr>;
          s2 = s1\<lparr>effects := effects s1 @ [SetHtml (wrapperHtml s1) (baseUrl s1)]\<rparr>
      in updatePreview env s2)"

definition setHtmlExporter :: "Env \<Rightarrow> Exporter option \<Rightarrow> HtmlPreview \<Rightarrow> HtmlPreview" where
  "setHtmlExporter env e s = updatePreview env (setHtmlContent [] (s\<lparr>exporter := e\<rparr>))"

definition setStyleSheet :: "string \<Rightarrow> HtmlPreview \<Rightarrow> HtmlPreview" where
  "setStyleSheet css s = s\<lparr>styleSheet := setText css (styleSheet s)\<rparr>"

definition closeEvent :: "HtmlPreview \<Rightarrow> HtmlPreview" where
  "closeEvent s =
     (let s1 = setHtmlContent [] s;
          s2 = s1\<lparr>vanillaHtml := []\<rparr>
      in s2\<lparr>livePreviewHtml := setText [] (livePreviewHtml s2)\<rparr>)"

text \<open>The shell that the constructor stores in \<^verbatim>\<open>wrapperHtml\<close>.\<close>

definition wrapperHtml_literal :: string where
  \<open>wrapperHtml_literal =
     ''<!doctype html>'' @
     ''<html lang="en">'' @
     ''<meta charset="utf-8">'' @
     ''<head>'' @
     ''    <script>'' @
     ''         MathJax = {'' @
     ''            tex: {'' @
     ''                inlineMath: [['$', '$']]'' @
     ''             }'' @
     ''         };'' @
     ''    </script>'' @
     ''    <script type="text/javascript" id="MathJax-script" src="https://cdn.jsdelivr.net/npm/mathjax@3/es5/tex-mml-chtml.js"></script>'' @
     ''    <style id='ghostwriter_css' type='text/css' media='all'></style>'' @
     ''    <script src="qrc:/qtwebchannel/qwebchannel.js"></script>'' @
     ''</head>'' @
     ''<body>'' @
     ''    <div id="livepreviewplaceholder"></div>'' @
     ''    <script src="qrc:/resources/gw.js"></script>'' @
     ''    <script>'' @
     ''        new QWebChannel(qt.webChannelTransport,'' @
     ''            function(channel) {'' @
     ''                var styleSheet = channel.objects.stylesheet;'' @
     ''                loadStyleSheet(styleSheet.text);'' @
     ''                styleSheet.textChanged.connect(loadStyleSheet);'' @
     ''                var content = channel.objects.livepreviewcontent;'' @
     ''                updateText(content.text);'' @
     ''                content.textChanged.connect(updateText);'' @
     ''            }'' @
     ''        );'' @
     ''    </script>'' @
     ''</body>'' @
     ''</html>''\<close>

text \<open>
  The constructor: the fields as it sets them, then \<^verbatim>\<open>updateBaseDir\<close>.  The
  counter of \<^verbatim>\<open>setHtmlContent\<close> is static, so it starts from the value \<open>c\<close>
  that earlier instances left.
\<close>

definition HtmlPreview_new :: "Env \<Rightarrow> Exporter option \<Rightarrow> 32 word \<Rightarrow> HtmlPreview" where
  "HtmlPreview_new env e c =
     updateBaseDir env
       \<lparr>updateInProgress = False,
        updateAgain = False,
        vanillaHtml = [],
        livePreviewHtml = setText [] StringObserver_new,
        styleSheet = setText [] StringObserver_new,
        baseUrl = [],
        exporter = e,
        wrapperHtml = wrapperHtml_literal,
        count = c,
        futures = [],
        effects = []\<rparr>"

subsection \<open>The widget over time\<close>

text \<open>
  The slots and signals that reach the widget on its thread.  Each comes with
  the surroundings as they are when it runs, so the document and the
  visibility change freely between two of them.  \<open>FutureFinished\<close> is the
  \<^verbatim>\<open>finished\<close> signal of the future watcher: it delivers the result of the
  oldest render still running to \<^verbatim>\<open>onHtmlReady\<close>, and does nothing when no
  render is running.
\<close>

datatype Event =
    UpdatePreview
  | FutureFinished
  | FilePathChanged
  | SetHtmlExporter "Exporter option"
  | SetStyleSheet string
  | CloseEvent

fun fire :: "Env \<Rightarrow> Event \<Rightarrow> HtmlPreview \<Rightarrow> HtmlPreview" where
  "fire env UpdatePreview s = updatePreview env s"
| "fire env FutureFinished s =
     (case futures s of
        [] \<Rightarrow> s
      | (txt, e) # rest \<Rightarrow> onHtmlReady env (fst (exportToHtml txt e)) (s\<lparr>futures := rest\<rparr>))"
| "fire env FilePathChanged s = updateBaseDir env s"
| "fire env (SetHtmlExporter e) s = setHtmlExporter env e s"
| "fire env (SetStyleSheet css) s = setStyleSheet css s"
| "fire env CloseEvent s = closeEvent s"

fun run :: "(Env \<times> Event) list \<Rightarrow> HtmlPreview \<Rightarrow> HtmlPreview" where
  "run [] s = s"
| "run ((env, ev) # evs) s = run evs (fire env ev s)"

text \<open>The number of renders started so far, as the log has them.\<close>

fun isExportStarted :: "Effect \<Rightarrow> bool" where
  "isExportStarted (ExportStarted _) = True"
| "isExportStarted _ = False"

definition exportsStarted :: "HtmlPreview \<Rightarrow> nat" where
  "exportsStarted s = length (filter isExportStarted (effects s))"

text \<open>The number of calls of \<^verbatim>\<open>updatePreview\<close> so far, as the log has them.\<close>

definition updatePreviewCount :: "HtmlPreview \<Rightarrow> nat" where
  "updatePreviewCount s = length (filter (\<lambda>x. x = UpdatePreviewCalled) (effects s))"

text \<open>The effects that \<open>s'\<close> has logged beyond those of the earlier state \<open>s\<close>.\<close>

definition effectsSince :: "HtmlPreview \<Rightarrow> HtmlPreview \<Rightarrow> Effect list" where
  "effectsSince s s' = drop (length (effects s)) (effects s')"

fun isSetHtml :: "Effect \<Rightarrow> bool" where
  "isSetHtml (SetHtml _ _) = True"
| "isSetHtml _ = False"

text \<open>Calls of \<^verbatim>\<open>updatePreview\<close> one after the other, each with its surroundings.\<close>

fun updatePreviewCalls :: "Env list \<Rightarrow> HtmlPreview \<Rightarrow> HtmlPreview" where
  "updatePreviewCalls [] s = s"
| "updatePreviewCalls (env # envs) s = updatePreviewCalls envs (updatePreview env s)"

text \<open>
  Single flight, as a predicate of a state: a render is running exactly when
  \<^verbatim>\<open>updateInProgress\<close> is set, and then it is the only one.
\<close>

definition singleFlight :: "HtmlPreview \<Rightarrow> bool" where
  "singleFlight s = (if updateInProgress s then length (futures s) = 1 else futures s = [])"

text \<open>
  An exporter whose markup never contains the anchor (the preview runs it with
  smart typography on), and the same of the exporter an event brings and of
  those a state holds.
\<close>

definition markerFree :: "Exporter \<Rightarrow> bool" where
  "markerFree e = (\<forall>txt. \<not> sublist anchor (render e True txt))"

fun markerFreeOpt :: "Exporter option \<Rightarrow> bool" where
  "markerFreeOpt None = True"
| "markerFreeOpt (Some e) = markerFree e"

fun markerFreeEvent :: "Event \<Rightarrow> bool" where
  "markerFreeEvent (SetHtmlExporter e) = markerFreeOpt e"
| "markerFreeEvent _ = True"

definition markerFreeState :: "HtmlPreview \<Rightarrow> bool" where
  "markerFreeState s =
     (\<not> sublist anchor (vanillaHtml s)
      \<and> list_all (\<lambda>(txt, e). markerFree e) (futures s)
      \<and> markerFreeOpt (exporter s))"

subsection \<open>Concrete inputs\<close>

text \<open>
  An exporter whose markup depends on the typography option only, a document
  with the text \<open>txt\<close> in a widget that is shown, and the same in a hidden one.
\<close>

definition exampleExporter :: Exporter where
  "exampleExporter =
     \<lparr>smartTypography = False,
      render = (\<lambda>smart txt. if smart then ''<p>smart</p>'' else ''<p>plain</p>''),
      exported = []\<rparr>"

definition shown :: "string \<Rightarrow> Env" where
  "shown txt =
     \<lparr>isVisible = True, isEmpty = (txt = []), toPlainText = txt,
      filePath = ''/home/u/a.md'',
      absolutePath = (\<lambda>p. ''/home/u''),
      fromLocalFile = (\<lambda>p. ''file://'' @ p)\<rparr>"

definition hidden :: "string \<Rightarrow> Env" where
  "hidden txt = (shown txt)\<lparr>isVisible := False\<rparr>"

text \<open>
  A preview built over the document \<open>x\<close> (hidden, as a widget is when it is
  constructed), then shown and asked to update: the first render is running.
  And the same preview once that render was delivered, with a style sheet set
  in between.
\<close>

definition rendering :: HtmlPreview where
  "rendering =
     run [(shown ''x'', UpdatePreview)] (HtmlPreview_new (hidden ''x'') (Some exampleExporter) 0)"

definition rendered :: HtmlPreview where
  "rendered = run [(shown ''x'', SetStyleSheet ''p{}''), (shown ''x'', FutureFinished)] rendering"

section \<open>Properties\<close>

subsection \<open>The diff\<close>

lemma written_simps:
  "written [] = []" "written (l # ls) = l @ endl @ written ls"
  "written (xs @ ys) = written xs @ written ys"
  by (simp_all add: written_def)

text \<open>Over a common prefix the first loop copies the lines and reads on.\<close>

lemma lockstep_common:
  "lockstepLoop (fst (readLine (p @ xs))) (snd (readLine (p @ xs)))
                (fst (readLine (p @ ys))) (snd (readLine (p @ ys))) False out
   = lockstepLoop (fst (readLine xs)) (snd (readLine xs))
                (fst (readLine ys)) (snd (readLine ys)) False (out @ written p)"
  by (induction p arbitrary: out) (simp_all add: written_simps)

text \<open>Once a difference was found the second loop copies what is left.\<close>

lemma remaining_found:
  "remainingLoop (fst (readLine ns)) (snd (readLine ns)) True out = (True, out @ written ns)"
  by (induction ns arbitrary: out) (simp_all add: written_simps)

lemma diffAnchor_same: "diffAnchor ls ls = (False, written ls)"
  using lockstep_common [of ls "[]" "[]" "[]"]
  by (simp add: diffAnchor_def)

text \<open>
  Lines appended at the end (not one of the claims below, kept for the
  record): the anchor stands before the first appended line.
\<close>

lemma diffAnchor_appended:
  "diffAnchor old (old @ newLine # ns) = (True, written old @ anchor @ written (newLine # ns))"
  using lockstep_common [of old "[]" "newLine # ns" "[]"]
  by (simp add: diffAnchor_def remaining_found written_simps)

subsection \<open>The concrete inputs, evaluated\<close>

lemmas preview_defs =
  HtmlPreview_new_def updateBaseDir_def updatePreview_def setHtmlContent_def setText_def
  StringObserver_new_def onHtmlReady_def onHtmlReady_publish_def setStyleSheet_def
  setHtmlExporter_def closeEvent_def exportToHtml_def Exporter_exportToHtml_def
  smartTypographyEnabled_def setSmartTypographyEnabled_def textStream_def diffAnchor_def
  chopCR_def Let_def

lemmas example_defs = rendering_def rendered_def shown_def hidden_def exampleExporter_def

lemma rendering_flags:
  "updateInProgress rendering \<and> \<not> updateAgain rendering
   \<and> futures rendering = [(''x'', exampleExporter)] \<and> exporter rendering = Some exampleExporter"
  by (simp add: rendering_def shown_def hidden_def preview_defs)

lemma rendered_vanilla: "vanillaHtml rendered = ''<p>smart</p>''"
  by (simp add: example_defs preview_defs)

lemma rendered_live:
  \<open>currentText (livePreviewHtml rendered)
     = ''<a id="livepreviewmodifypoint"></a><p>smart</p>'' @ endl\<close>
  by (simp add: example_defs preview_defs anchor_def)

lemma rendered_flags:
  "\<not> updateInProgress rendered \<and> \<not> updateAgain rendered \<and> futures rendered = []"
  by (simp add: example_defs preview_defs)

subsection \<open>The claims about the diff\<close>

text \<open>
  Claim C3.  When the old and the new lines share a prefix \<open>p\<close> and then
  differ in a line that both have (\<open>oldLine\<close> in the old document, \<open>newLine\<close>
  in the new one), the scan reports a difference, and its output is the lines
  of the prefix, then the anchor once, right before \<open>newLine\<close>, then \<open>newLine\<close>
  and every later line of the new document as they are.
\<close>

theorem C3_middle_edit:
  "oldLine \<noteq> newLine \<Longrightarrow>
   diffAnchor (p @ oldLine # os) (p @ newLine # ns)
     = (True, written p @ anchor @ written (newLine # ns))"
  by (simp add: diffAnchor_def lockstep_common remaining_found written_simps)

theorem C3_middle_edit_witness:
  \<open>''b'' \<noteq> ''X'' \<and>
   diffAnchor [''a'', ''b'', ''c''] [''a'', ''X'', ''c'']
     = (True, ''a'' @ endl @ ''<a id="livepreviewmodifypoint"></a>'' @ ''X'' @ endl @ ''c'' @ endl)\<close>
  using C3_middle_edit [of "''b''" "''X''" "[''a'']" "[''c'']" "[''c'']"]
  by (simp add: written_def anchor_def)

text \<open>
  Claim C5.  When the new lines are the old ones with lines removed at the
  end, the scan reports a difference, and its output is every line of the new
  document followed by the anchor, with nothing after it.
\<close>

theorem C5_truncated:
  "diffAnchor (new @ oldLine # os) new = (True, written new @ anchor)"
  using lockstep_common [of new "oldLine # os" "[]" "[]"]
  by (simp add: diffAnchor_def)

theorem C5_truncated_witness:
  \<open>diffAnchor [''a'', ''b'', ''c''] [''a'', ''b'']
     = (True, ''a'' @ endl @ ''b'' @ endl @ ''<a id="livepreviewmodifypoint"></a>'')\<close>
  using C5_truncated [of "[''a'', ''b'']" "''c''" "[]"]
  by (simp add: written_def anchor_def)

text \<open>
  Claim C4.  When the new render has the same lines as \<^verbatim>\<open>vanillaHtml\<close>, the
  scan reports no difference, and the part of \<^verbatim>\<open>onHtmlReady\<close> that publishes
  (up to line 322) leaves the whole state as it was: \<^verbatim>\<open>setHtmlContent\<close> is not
  called (its counter and the log are unchanged), the published markup and
  \<^verbatim>\<open>vanillaHtml\<close> keep their values.  What \<^verbatim>\<open>onHtmlReady\<close> does as a whole
  is then only the end of the render: it clears \<^verbatim>\<open>updateInProgress\<close> and, when
  an update was asked for meanwhile, runs that next update.
\<close>

theorem C4_no_change_no_publish:
  assumes "textStream html = textStream (vanillaHtml s)"
  shows "fst (diffAnchor (textStream (vanillaHtml s)) (textStream html)) = False
       \<and> onHtmlReady_publish html s = s
       \<and> onHtmlReady env html s =
           (if updateAgain s
            then updatePreview env (s\<lparr>updateInProgress := False, updateAgain := False\<rparr>)
            else s\<lparr>updateInProgress := False\<rparr>)"
  using assms by (simp add: onHtmlReady_def onHtmlReady_publish_def diffAnchor_same)

theorem C4_no_change_no_publish_witness:
  "textStream (''<p>smart</p>'' @ endl) = textStream (vanillaHtml rendered)
   \<and> onHtmlReady_publish (''<p>smart</p>'' @ endl) rendered = rendered
   \<and> vanillaHtml (onHtmlReady (shown ''x'') (''<p>smart</p>'' @ endl) rendered) = ''<p>smart</p>''
   \<and> effects (onHtmlReady (shown ''x'') (''<p>smart</p>'' @ endl) rendered) = effects rendered"
proof -
  have h: "textStream (''<p>smart</p>'' @ endl) = textStream (vanillaHtml rendered)"
    by (simp add: rendered_vanilla textStream_def endl_def chopCR_def)
  show ?thesis
    using h C4_no_change_no_publish [OF h, of "shown ''x''"] rendered_flags rendered_vanilla
    by simp
qed

subsection \<open>The exporter adapter\<close>

text \<open>
  Claim C6.  Whatever the exporter's smart typography setting was, after
  \<^verbatim>\<open>exportToHtml\<close> it is what it was before the call; the export itself ran
  with the setting on: the markup is the one rendered with it on, and the
  exporter's log has the call with \<open>True\<close>.
\<close>

theorem C6_typography_restored:
  "smartTypographyEnabled (snd (exportToHtml txt e)) = smartTypographyEnabled e
   \<and> fst (exportToHtml txt e) = render e True txt
   \<and> exported (snd (exportToHtml txt e)) = exported e @ [(True, txt)]"
  by (simp add: exportToHtml_def smartTypographyEnabled_def setSmartTypographyEnabled_def
      Exporter_exportToHtml_def)

theorem C6_typography_restored_witness:
  "smartTypographyEnabled (snd (exportToHtml ''x'' exampleExporter)) = False
   \<and> fst (exportToHtml ''x'' exampleExporter) = ''<p>smart</p>''
   \<and> exported (snd (exportToHtml ''x'' exampleExporter)) = [(True, ''x'')]"
  using C6_typography_restored [of "''x''" exampleExporter]
  by (simp add: exampleExporter_def smartTypographyEnabled_def)

subsection \<open>Visibility\<close>

text \<open>
  Claim C7, as stated, fails: \<^verbatim>\<open>updatePreview\<close> tests \<^verbatim>\<open>updateInProgress\<close>
  before the visibility.  In a hidden widget whose render is running, the call
  sets \<^verbatim>\<open>updateAgain\<close>.
\<close>

theorem C7_hidden_counterexample:
  "\<not> isVisible (hidden ''x'') \<and> \<not> updateAgain rendering
   \<and> updateAgain (updatePreview (hidden ''x'') rendering)"
  by (simp add: example_defs preview_defs)

text \<open>
  Claim C7, amended.  A call of \<^verbatim>\<open>updatePreview\<close> in a widget that is not
  visible starts no render and publishes nothing.  When no render is running
  it changes no field at all (the log only records the call); when one is
  running it sets \<^verbatim>\<open>updateAgain\<close> and nothing else.
\<close>

theorem C7_hidden_update:
  "\<not> isVisible env \<Longrightarrow>
   updatePreview env s =
     (if updateInProgress s
      then s\<lparr>updateAgain := True, effects := effects s @ [UpdatePreviewCalled]\<rparr>
      else s\<lparr>effects := effects s @ [UpdatePreviewCalled]\<rparr>)"
  by (simp add: updatePreview_def)

theorem C7_hidden_update_witness:
  "\<not> isVisible (hidden ''xy'')
   \<and> \<not> updateInProgress rendered
   \<and> updatePreview (hidden ''xy'') rendered
       = rendered\<lparr>effects := effects rendered @ [UpdatePreviewCalled]\<rparr>
   \<and> updateInProgress rendering
   \<and> updatePreview (hidden ''xy'') rendering
       = rendering\<lparr>updateAgain := True, effects := effects rendering @ [UpdatePreviewCalled]\<rparr>"
proof -
  have h: "\<not> isVisible (hidden ''xy'')" by (simp add: hidden_def)
  show ?thesis
    using h rendering_flags rendered_flags
      C7_hidden_update [OF h, of rendered] C7_hidden_update [OF h, of rendering]
    by simp
qed

subsection \<open>Resetting the content\<close>

text \<open>
  Claim C8, as stated, fails twice.  None of the three paths touches the style
  sheet: after the close, after a change of exporter and after an update on an
  empty document it is still \<open>p{}\<close>.  And an update on an empty document
  resets nothing while the widget is hidden.
\<close>

theorem C8_reset_counterexample:
  "currentText (styleSheet (closeEvent rendered)) = ''p{}''
   \<and> currentText (styleSheet (setHtmlExporter (shown ''x'') None rendered)) = ''p{}''
   \<and> currentText (styleSheet (updatePreview (shown []) rendered)) = ''p{}''
   \<and> isEmpty (hidden [])
   \<and> vanillaHtml (updatePreview (hidden []) rendered) = ''<p>smart</p>''"
  by (simp add: example_defs preview_defs)

text \<open>
  Claim C8, amended.  The close of the preview and a change of exporter reset
  \<^verbatim>\<open>vanillaHtml\<close> and the published markup to the empty string; so does an
  update on an empty document, when the widget is visible and no render is
  running.  The style sheet is left as it is by all three.
\<close>

theorem C8_reset:
  "vanillaHtml (closeEvent s) = [] \<and> currentText (livePreviewHtml (closeEvent s)) = []
   \<and> styleSheet (closeEvent s) = styleSheet s
   \<and> vanillaHtml (setHtmlExporter env e s) = []
   \<and> currentText (livePreviewHtml (setHtmlExporter env e s)) = []
   \<and> styleSheet (setHtmlExporter env e s) = styleSheet s
   \<and> (isEmpty env \<and> isVisible env \<and> \<not> updateInProgress s \<longrightarrow>
        vanillaHtml (updatePreview env s) = []
      \<and> currentText (livePreviewHtml (updatePreview env s)) = []
      \<and> styleSheet (updatePreview env s) = styleSheet s)"
  by (simp add: closeEvent_def setHtmlExporter_def updatePreview_def setHtmlContent_def
      setText_def Let_def split: option.splits)

theorem C8_reset_witness:
  "vanillaHtml rendered = ''<p>smart</p>''
   \<and> vanillaHtml (closeEvent rendered) = []
   \<and> currentText (livePreviewHtml (closeEvent rendered)) = []
   \<and> vanillaHtml (setHtmlExporter (shown ''x'') None rendered) = []
   \<and> currentText (livePreviewHtml (setHtmlExporter (shown ''x'') None rendered)) = []
   \<and> isEmpty (shown []) \<and> isVisible (shown []) \<and> \<not> updateInProgress rendered
   \<and> vanillaHtml (updatePreview (shown []) rendered) = []
   \<and> currentText (livePreviewHtml (updatePreview (shown []) rendered)) = []
   \<and> styleSheet (updatePreview (shown []) rendered) = styleSheet rendered"
proof -
  have h: "isEmpty (shown []) \<and> isVisible (shown [])" by (simp add: shown_def)
  show ?thesis
    using h rendered_flags rendered_vanilla C8_reset [of rendered "shown ''x''" None]
      C8_reset [of rendered "shown []" None]
    by simp
qed

subsection \<open>The base directory\<close>

lemma effects_updatePreview:
  "\<exists>rest. effects (updatePreview env s) = effects s @ UpdatePreviewCalled # rest
     \<and> filter (\<lambda>x. isSetHtml x \<or> x = UpdatePreviewCalled) rest = []"
  by (simp add: updatePreview_def setHtmlContent_def Let_def split: option.splits)

lemma baseUrl_updatePreview: "baseUrl (updatePreview env s) = baseUrl s"
  by (simp add: updatePreview_def setHtmlContent_def Let_def split: option.splits)

lemma updateBaseDir_unfold:
  "updateBaseDir env s =
     updatePreview env
       (s\<lparr>baseUrl := (if filePath env \<noteq> []
                      then fromLocalFile env (absolutePath env (filePath env) @ ''/'') else []),
          effects := effects s @ [SetHtml (wrapperHtml s)
             (if filePath env \<noteq> []
              then fromLocalFile env (absolutePath env (filePath env) @ ''/'') else [])]\<rparr>)"
  by (simp add: updateBaseDir_def Let_def)

text \<open>
  Claim C9.  When the file path of the document changes, \<^verbatim>\<open>baseUrl\<close> becomes
  the URL of the directory of the file with a slash after it, or the empty
  string when the document has no path; the log keeps what it had; and of the
  effects that follow, the loads of the shell and the calls of
  \<^verbatim>\<open>updatePreview\<close> are exactly one load, with the stored shell and the new base
  URL, and then one call.
\<close>

theorem C9_path_change:
  "baseUrl (fire env FilePathChanged s) =
     (if filePath env \<noteq> [] then fromLocalFile env (absolutePath env (filePath env) @ ''/'') else [])
   \<and> take (length (effects s)) (effects (fire env FilePathChanged s)) = effects s
   \<and> filter (\<lambda>x. isSetHtml x \<or> x = UpdatePreviewCalled) (effectsSince s (fire env FilePathChanged s))
       = [SetHtml (wrapperHtml s)
            (if filePath env \<noteq> []
             then fromLocalFile env (absolutePath env (filePath env) @ ''/'') else []),
          UpdatePreviewCalled]"
proof -
  define b where
    "b = (if filePath env \<noteq> [] then fromLocalFile env (absolutePath env (filePath env) @ ''/'') else [])"
  define s1 where "s1 = s\<lparr>baseUrl := b, effects := effects s @ [SetHtml (wrapperHtml s) b]\<rparr>"
  have f: "updateBaseDir env s = updatePreview env s1"
    by (simp add: updateBaseDir_unfold s1_def b_def)
  obtain rest where r: "effects (updatePreview env s1) = effects s1 @ UpdatePreviewCalled # rest"
    "filter (\<lambda>x. isSetHtml x \<or> x = UpdatePreviewCalled) rest = []"
    using effects_updatePreview [of env s1] by blast
  have e: "effects (updateBaseDir env s)
             = effects s @ [SetHtml (wrapperHtml s) b, UpdatePreviewCalled] @ rest"
    using r(1) by (simp add: f s1_def)
  have 1: "baseUrl (updateBaseDir env s) = b"
    by (simp add: f baseUrl_updatePreview s1_def)
  have 2: "take (length (effects s)) (effects (updateBaseDir env s)) = effects s"
    by (simp add: e)
  have 3: "filter (\<lambda>x. isSetHtml x \<or> x = UpdatePreviewCalled) (effectsSince s (updateBaseDir env s))
       = [SetHtml (wrapperHtml s) b, UpdatePreviewCalled]"
    using r(2) by (simp add: e effectsSince_def)
  show ?thesis using 1 2 3 unfolding b_def by simp
qed

theorem C9_path_change_witness:
  "baseUrl (fire (shown ''x'') FilePathChanged rendered) = ''file:///home/u/''
   \<and> filter (\<lambda>x. isSetHtml x \<or> x = UpdatePreviewCalled)
        (effectsSince rendered (fire (shown ''x'') FilePathChanged rendered))
       = [SetHtml (wrapperHtml rendered) ''file:///home/u/'', UpdatePreviewCalled]
   \<and> baseUrl (fire ((shown ''x'')\<lparr>filePath := []\<rparr>) FilePathChanged rendered) = []"
  using C9_path_change [of "shown ''x''" rendered]
    C9_path_change [of "(shown ''x'')\<lparr>filePath := []\<rparr>" rendered]
  by (simp add: shown_def)

subsection \<open>Single flight\<close>

lemma singleFlight_setHtmlContent: "singleFlight (setHtmlContent html s) = singleFlight s"
  by (simp add: singleFlight_def setHtmlContent_def)

lemma singleFlight_updatePreview: "singleFlight s \<Longrightarrow> singleFlight (updatePreview env s)"
  by (simp add: singleFlight_def updatePreview_def setHtmlContent_def Let_def
      split: option.splits if_splits)

lemma futures_publish: "futures (onHtmlReady_publish html s) = futures s"
  by (simp add: onHtmlReady_publish_def setHtmlContent_def split: prod.splits)

lemma singleFlight_onHtmlReady: "futures s = [] \<Longrightarrow> singleFlight (onHtmlReady env html s)"
proof -
  assume a: "futures s = []"
  define s2 where "s2 = (onHtmlReady_publish html s)\<lparr>updateInProgress := False\<rparr>"
  have i: "singleFlight s2" using a by (simp add: s2_def singleFlight_def futures_publish)
  have j: "singleFlight (s2\<lparr>updateAgain := False\<rparr>)" using i by (simp add: singleFlight_def)
  show ?thesis
    using i singleFlight_updatePreview [OF j, of env]
    by (simp add: onHtmlReady_def Let_def s2_def)
qed

lemma singleFlight_fire: "singleFlight s \<Longrightarrow> singleFlight (fire env ev s)"
proof (cases ev)
  case FutureFinished
  assume a: "singleFlight s"
  show ?thesis
  proof (cases "futures s")
    case Nil
    with a FutureFinished show ?thesis by simp
  next
    case (Cons f rest)
    obtain t e where f: "f = (t, e)" by (cases f)
    have "futures (s\<lparr>futures := rest\<rparr>) = []"
      using a Cons by (simp add: singleFlight_def split: if_splits)
    from singleFlight_onHtmlReady [OF this]
    show ?thesis using FutureFinished Cons f by simp
  qed
qed (simp_all add: singleFlight_updatePreview singleFlight_setHtmlContent updateBaseDir_def
      setHtmlExporter_def setStyleSheet_def closeEvent_def Let_def singleFlight_def
      updatePreview_def setHtmlContent_def split: option.splits)

lemma singleFlight_run: "singleFlight s \<Longrightarrow> singleFlight (run evs s)"
  by (induction evs arbitrary: s) (auto simp: singleFlight_fire)

lemma singleFlight_new: "singleFlight (HtmlPreview_new env e c)"
  by (simp add: HtmlPreview_new_def updateBaseDir_def Let_def singleFlight_def
      updatePreview_def setHtmlContent_def split: option.splits)

lemma dispatch_only_idle:
  "length (futures s) < length (futures (updatePreview env s)) \<Longrightarrow>
     \<not> updateInProgress s \<and> updateInProgress (updatePreview env s)
     \<and> exporter s \<noteq> None
     \<and> futures (updatePreview env s) = futures s @ [(toPlainText env, the (exporter s))]"
  by (simp add: updatePreview_def setHtmlContent_def Let_def split: option.splits if_splits)

text \<open>
  Claim C2.  Whatever slots and signals reach a preview after its
  construction, in whatever order and with whatever document and visibility,
  at most one render is running, and one is running exactly when
  \<^verbatim>\<open>updateInProgress\<close> is set.  And a call of \<^verbatim>\<open>updatePreview\<close> that starts a
  render finds \<^verbatim>\<open>updateInProgress\<close> unset, sets it, and starts that one render
  with the text of the document.
\<close>

theorem C2_single_flight:
  "length (futures (run evs (HtmlPreview_new env e c))) \<le> 1
   \<and> updateInProgress (run evs (HtmlPreview_new env e c))
       = (futures (run evs (HtmlPreview_new env e c)) \<noteq> [])
   \<and> (length (futures s) < length (futures (updatePreview env' s)) \<longrightarrow>
        \<not> updateInProgress s \<and> updateInProgress (updatePreview env' s)
        \<and> exporter s \<noteq> None
        \<and> futures (updatePreview env' s) = futures s @ [(toPlainText env', the (exporter s))])"
proof -
  have "singleFlight (run evs (HtmlPreview_new env e c))"
    by (rule singleFlight_run [OF singleFlight_new])
  then have "length (futures (run evs (HtmlPreview_new env e c))) \<le> 1
   \<and> updateInProgress (run evs (HtmlPreview_new env e c))
       = (futures (run evs (HtmlPreview_new env e c)) \<noteq> [])"
    by (auto simp: singleFlight_def split: if_splits)
  then show ?thesis using dispatch_only_idle [of s env'] by blast
qed

theorem C2_single_flight_witness:
  "futures (run [(shown ''x'', UpdatePreview), (shown ''xy'', UpdatePreview),
                 (shown ''xyz'', UpdatePreview), (shown ''xyz'', FutureFinished)]
             (HtmlPreview_new (hidden ''x'') (Some exampleExporter) 0))
     = [(''xyz'', exampleExporter)]
   \<and> updateInProgress (run [(shown ''x'', UpdatePreview), (shown ''xy'', UpdatePreview),
                 (shown ''xyz'', UpdatePreview), (shown ''xyz'', FutureFinished)]
             (HtmlPreview_new (hidden ''x'') (Some exampleExporter) 0))
   \<and> length (futures rendered) < length (futures (updatePreview (shown ''xy'') rendered))
   \<and> \<not> updateInProgress rendered
   \<and> updateInProgress (updatePreview (shown ''xy'') rendered)"
proof -
  have a: "futures (run [(shown ''x'', UpdatePreview), (shown ''xy'', UpdatePreview),
                 (shown ''xyz'', UpdatePreview), (shown ''xyz'', FutureFinished)]
             (HtmlPreview_new (hidden ''x'') (Some exampleExporter) 0))
     = [(''xyz'', exampleExporter)]"
    by (simp add: shown_def hidden_def exampleExporter_def preview_defs)
  have b: "length (futures rendered) < length (futures (updatePreview (shown ''xy'') rendered))"
    by (simp add: example_defs preview_defs)
  note t = C2_single_flight [of "[(shown ''x'', UpdatePreview), (shown ''xy'', UpdatePreview),
                 (shown ''xyz'', UpdatePreview), (shown ''xyz'', FutureFinished)]"
                 "hidden ''x''" "Some exampleExporter" 0
                 rendered "shown ''xy''"]
  have c: "updateInProgress (run [(shown ''x'', UpdatePreview), (shown ''xy'', UpdatePreview),
                 (shown ''xyz'', UpdatePreview), (shown ''xyz'', FutureFinished)]
             (HtmlPreview_new (hidden ''x'') (Some exampleExporter) 0))"
    using t [THEN conjunct2, THEN conjunct1] a by (simp del: run.simps)
  have d: "\<not> updateInProgress rendered \<and> updateInProgress (updatePreview (shown ''xy'') rendered)"
    using t [THEN conjunct2, THEN conjunct2] b by blast
  from a b c d show ?thesis by blast
qed

subsection \<open>Coalescing\<close>

lemma calls_in_flight:
  "updateInProgress s \<Longrightarrow>
   updatePreviewCalls envs s =
     s\<lparr>updateAgain := (updateAgain s \<or> envs \<noteq> []),
       effects := effects s @ replicate (length envs) UpdatePreviewCalled\<rparr>"
proof (induction envs arbitrary: s)
  case Nil
  then show ?case by simp
next
  case (Cons env envs)
  have u: "updatePreview env s = s\<lparr>updateAgain := True, effects := effects s @ [UpdatePreviewCalled]\<rparr>"
    using Cons.prems by (simp add: updatePreview_def)
  have "updateInProgress (updatePreview env s)" using Cons.prems by (simp add: u)
  from Cons.IH [OF this] show ?case
    by (simp add: u replicate_append_same [symmetric] del: replicate.simps)
       (simp add: replicate_app_Cons_same)
qed

lemma publish_fields:
  "updateAgain (onHtmlReady_publish html s) = updateAgain s
   \<and> updateInProgress (onHtmlReady_publish html s) = updateInProgress s
   \<and> exporter (onHtmlReady_publish html s) = exporter s
   \<and> futures (onHtmlReady_publish html s) = futures s
   \<and> styleSheet (onHtmlReady_publish html s) = styleSheet s"
  by (simp add: onHtmlReady_publish_def setHtmlContent_def split: prod.splits)

lemma publish_counts:
  "updatePreviewCount (onHtmlReady_publish html s) = updatePreviewCount s
   \<and> exportsStarted (onHtmlReady_publish html s) = exportsStarted s"
  by (simp add: onHtmlReady_publish_def setHtmlContent_def exportsStarted_def
      updatePreviewCount_def split: prod.splits)

lemma updatePreview_idle:
  "\<not> updateInProgress s \<Longrightarrow>
   updateAgain (updatePreview env s) = updateAgain s
   \<and> futures (updatePreview env s) =
       futures s @ (if isVisible env \<and> \<not> isEmpty env \<and> exporter s \<noteq> None \<and> toPlainText env \<noteq> []
                    then [(toPlainText env, the (exporter s))] else [])
   \<and> exportsStarted (updatePreview env s) =
       exportsStarted s + (if isVisible env \<and> \<not> isEmpty env \<and> exporter s \<noteq> None \<and> toPlainText env \<noteq> []
                           then 1 else 0)
   \<and> updatePreviewCount (updatePreview env s) = updatePreviewCount s + 1"
  by (simp add: updatePreview_def setHtmlContent_def exportsStarted_def updatePreviewCount_def
      Let_def split: option.splits)

lemma coalesced_finish:
  assumes "updateAgain s" and "futures s = [(t, e)]"
  shows "\<not> updateAgain (fire env FutureFinished s)
   \<and> updatePreviewCount (fire env FutureFinished s) = updatePreviewCount s + 1
   \<and> exportsStarted (fire env FutureFinished s) =
       exportsStarted s + (if isVisible env \<and> \<not> isEmpty env \<and> exporter s \<noteq> None \<and> toPlainText env \<noteq> []
                           then 1 else 0)
   \<and> futures (fire env FutureFinished s) =
       (if isVisible env \<and> \<not> isEmpty env \<and> exporter s \<noteq> None \<and> toPlainText env \<noteq> []
        then [(toPlainText env, the (exporter s))] else [])"
proof -
  define html where "html = fst (exportToHtml t e)"
  define p where "p = onHtmlReady_publish html (s\<lparr>futures := []\<rparr>)"
  define s3 where "s3 = p\<lparr>updateInProgress := False, updateAgain := False\<rparr>"
  have pf: "updateAgain p" "exporter p = exporter s" "futures p = []"
    using assms(1) publish_fields [of html "s\<lparr>futures := []\<rparr>"] by (simp_all add: p_def)
  have pc: "updatePreviewCount p = updatePreviewCount s" "exportsStarted p = exportsStarted s"
    using publish_counts [of html "s\<lparr>futures := []\<rparr>"]
    by (simp_all add: p_def updatePreviewCount_def exportsStarted_def)
  have f: "fire env FutureFinished s = updatePreview env s3"
    using assms(2) pf(1) by (simp add: onHtmlReady_def Let_def p_def html_def s3_def)
  have i: "\<not> updateInProgress s3" by (simp add: s3_def)
  have s3f: "\<not> updateAgain s3" "exporter s3 = exporter s" "futures s3 = []"
    "updatePreviewCount s3 = updatePreviewCount s" "exportsStarted s3 = exportsStarted s"
    using pf pc by (simp_all add: s3_def updatePreviewCount_def exportsStarted_def)
  show ?thesis
    unfolding f using updatePreview_idle [OF i, of env] s3f by simp
qed

text \<open>
  Claim C1, as stated, fails: the one call of \<^verbatim>\<open>updatePreview\<close> that
  \<^verbatim>\<open>onHtmlReady\<close> makes starts a render only past the guards of
  \<^verbatim>\<open>updatePreview\<close>.  Here two calls arrive while the first render is
  running, the second after the document was emptied; when the render is
  delivered, no further render is started.
\<close>

theorem C1_coalescing_counterexample:
  "updateInProgress rendering
   \<and> exportsStarted (fire (shown []) FutureFinished
        (updatePreviewCalls [shown ''xy'', shown []] rendering)) = exportsStarted rendering
   \<and> futures (fire (shown []) FutureFinished
        (updatePreviewCalls [shown ''xy'', shown []] rendering)) = []"
  by (simp add: example_defs preview_defs exportsStarted_def)

text \<open>
  Claim C1, amended.  One call of \<^verbatim>\<open>updatePreview\<close> or more, made while a
  render is running, only set \<^verbatim>\<open>updateAgain\<close> (the log records the calls).
  When the render is delivered, \<^verbatim>\<open>onHtmlReady\<close> clears \<^verbatim>\<open>updateAgain\<close> and
  calls \<^verbatim>\<open>updatePreview\<close> exactly once; that call starts exactly one render
  when the widget is visible, the document is not empty and an exporter is
  set, and none otherwise.  The number of calls plays no part.
\<close>

theorem C1_coalescing:
  assumes "updateInProgress s" and "futures s = [(t, e)]" and "envs \<noteq> []"
  shows "updatePreviewCalls envs s =
           s\<lparr>updateAgain := True,
             effects := effects s @ replicate (length envs) UpdatePreviewCalled\<rparr>
   \<and> \<not> updateAgain (fire env FutureFinished (updatePreviewCalls envs s))
   \<and> updatePreviewCount (fire env FutureFinished (updatePreviewCalls envs s))
       = updatePreviewCount (updatePreviewCalls envs s) + 1
   \<and> exportsStarted (fire env FutureFinished (updatePreviewCalls envs s)) =
       exportsStarted s + (if isVisible env \<and> \<not> isEmpty env \<and> exporter s \<noteq> None \<and> toPlainText env \<noteq> []
                           then 1 else 0)
   \<and> futures (fire env FutureFinished (updatePreviewCalls envs s)) =
       (if isVisible env \<and> \<not> isEmpty env \<and> exporter s \<noteq> None \<and> toPlainText env \<noteq> []
        then [(toPlainText env, the (exporter s))] else [])"
proof -
  define s' where "s' = updatePreviewCalls envs s"
  have c: "s' = s\<lparr>updateAgain := True,
             effects := effects s @ replicate (length envs) UpdatePreviewCalled\<rparr>"
    using calls_in_flight [OF assms(1), of envs] assms(3) by (simp add: s'_def)
  have a: "updateAgain s'" "futures s' = [(t, e)]" "exporter s' = exporter s"
    "exportsStarted s' = exportsStarted s"
    using assms(2) by (simp_all add: c exportsStarted_def)
  show ?thesis
    using c coalesced_finish [OF a(1) a(2), of env] a(3) a(4)
    unfolding s'_def [symmetric] by simp
qed

theorem C1_coalescing_witness:
  "updateInProgress rendering \<and> futures rendering = [(''x'', exampleExporter)]
   \<and> updatePreviewCalls [shown ''xy'', shown ''xyz''] rendering =
       rendering\<lparr>updateAgain := True,
         effects := effects rendering @ [UpdatePreviewCalled, UpdatePreviewCalled]\<rparr>
   \<and> exportsStarted (fire (shown ''xyz'') FutureFinished
        (updatePreviewCalls [shown ''xy'', shown ''xyz''] rendering)) = exportsStarted rendering + 1
   \<and> futures (fire (shown ''xyz'') FutureFinished
        (updatePreviewCalls [shown ''xy'', shown ''xyz''] rendering)) = [(''xyz'', exampleExporter)]
   \<and> exportsStarted (fire (hidden ''xyz'') FutureFinished
        (updatePreviewCalls [shown ''xy'', shown ''xyz''] rendering)) = exportsStarted rendering"
proof -
  have e: "[shown ''xy'', shown ''xyz''] \<noteq> []" by simp
  have r: "updateInProgress rendering" "futures rendering = [(''x'', exampleExporter)]"
    "exporter rendering = Some exampleExporter"
    using rendering_flags by simp_all
  have v: "isVisible (shown ''xyz'')" "\<not> isEmpty (shown ''xyz'')" "toPlainText (shown ''xyz'') = ''xyz''"
    "\<not> isVisible (hidden ''xyz'')"
    by (simp_all add: shown_def hidden_def)
  note sh = C1_coalescing [OF r(1) r(2) e, of "shown ''xyz''"]
  note hi = C1_coalescing [OF r(1) r(2) e, of "hidden ''xyz''"]
  have A: "updatePreviewCalls [shown ''xy'', shown ''xyz''] rendering =
       rendering\<lparr>updateAgain := True,
         effects := effects rendering @ [UpdatePreviewCalled, UpdatePreviewCalled]\<rparr>"
    using sh [THEN conjunct1] by (simp del: updatePreviewCalls.simps)
  have B: "exportsStarted (fire (shown ''xyz'') FutureFinished
        (updatePreviewCalls [shown ''xy'', shown ''xyz''] rendering)) = exportsStarted rendering + 1"
    using sh [THEN conjunct2, THEN conjunct2, THEN conjunct2, THEN conjunct1] r(3) v
    by (simp del: fire.simps updatePreviewCalls.simps)
  have C: "futures (fire (shown ''xyz'') FutureFinished
        (updatePreviewCalls [shown ''xy'', shown ''xyz''] rendering)) = [(''xyz'', exampleExporter)]"
    using sh [THEN conjunct2, THEN conjunct2, THEN conjunct2, THEN conjunct2] r(3) v
    by (simp del: fire.simps updatePreviewCalls.simps)
  have D: "exportsStarted (fire (hidden ''xyz'') FutureFinished
        (updatePreviewCalls [shown ''xy'', shown ''xyz''] rendering)) = exportsStarted rendering"
    using hi [THEN conjunct2, THEN conjunct2, THEN conjunct2, THEN conjunct1] r(3) v
    by (simp del: fire.simps updatePreviewCalls.simps)
  from r(1) r(2) A B C D show ?thesis by blast
qed

subsection \<open>The baseline of the diff\<close>

lemma anchor_nonempty: "anchor \<noteq> []"
  by (simp add: anchor_def)

lemma publish_vanilla:
  "vanillaHtml (onHtmlReady_publish html s) =
     (if fst (diffAnchor (textStream (vanillaHtml s)) (textStream html)) then html else vanillaHtml s)"
  by (simp add: onHtmlReady_publish_def setHtmlContent_def split: prod.splits)

lemma publish_live:
  "fst (diffAnchor (textStream (vanillaHtml s)) (textStream html)) \<Longrightarrow>
   currentText (livePreviewHtml (onHtmlReady_publish html s))
     = snd (diffAnchor (textStream (vanillaHtml s)) (textStream html))"
  by (cases "diffAnchor (textStream (vanillaHtml s)) (textStream html)")
     (simp add: onHtmlReady_publish_def setHtmlContent_def setText_def)

lemma publish_twice:
  "onHtmlReady_publish html (onHtmlReady_publish html s) = onHtmlReady_publish html s"
proof (cases "fst (diffAnchor (textStream (vanillaHtml s)) (textStream html))")
  case True
  then have "vanillaHtml (onHtmlReady_publish html s) = html" by (simp add: publish_vanilla)
  then show ?thesis
    using diffAnchor_same [of "textStream html"]
    by (simp add: onHtmlReady_publish_def [of html "onHtmlReady_publish html s"])
next
  case False
  then have "onHtmlReady_publish html s = s"
    by (cases "diffAnchor (textStream (vanillaHtml s)) (textStream html)")
       (simp add: onHtmlReady_publish_def)
  then show ?thesis by simp
qed

lemma markerFree_setHtmlContent:
  "markerFreeState s \<Longrightarrow> \<not> sublist anchor html \<Longrightarrow> markerFreeState (setHtmlContent html s)"
  by (simp add: markerFreeState_def setHtmlContent_def)

lemma markerFree_updatePreview: "markerFreeState s \<Longrightarrow> markerFreeState (updatePreview env s)"
  by (auto simp: markerFreeState_def updatePreview_def setHtmlContent_def Let_def anchor_nonempty
      split: option.splits)

lemma markerFree_publish:
  "markerFreeState s \<Longrightarrow> \<not> sublist anchor html \<Longrightarrow> markerFreeState (onHtmlReady_publish html s)"
  using publish_fields [of html s] by (simp add: markerFreeState_def publish_vanilla)

lemma markerFree_onHtmlReady:
  assumes "markerFreeState s" and "\<not> sublist anchor html"
  shows "markerFreeState (onHtmlReady env html s)"
proof -
  define s2 where "s2 = (onHtmlReady_publish html s)\<lparr>updateInProgress := False\<rparr>"
  have i: "markerFreeState s2"
    using markerFree_publish [OF assms] by (simp add: s2_def markerFreeState_def)
  then have j: "markerFreeState (s2\<lparr>updateAgain := False\<rparr>)" by (simp add: markerFreeState_def)
  show ?thesis
    using i markerFree_updatePreview [OF j, of env]
    by (simp add: onHtmlReady_def Let_def s2_def)
qed

lemma markerFree_fire:
  assumes "markerFreeState s" and "markerFreeEvent ev"
  shows "markerFreeState (fire env ev s)"
proof (cases ev)
  case UpdatePreview
  then show ?thesis using assms by (simp add: markerFree_updatePreview)
next
  case FutureFinished
  show ?thesis
  proof (cases "futures s")
    case Nil
    with assms FutureFinished show ?thesis by simp
  next
    case (Cons f rest)
    obtain t e where f: "f = (t, e)" by (cases f)
    have m: "markerFree e" and r: "markerFreeState (s\<lparr>futures := rest\<rparr>)"
      using assms(1) Cons f by (simp_all add: markerFreeState_def)
    have h: "\<not> sublist anchor (fst (exportToHtml t e))"
      using m by (simp add: markerFree_def exportToHtml_def Exporter_exportToHtml_def
          smartTypographyEnabled_def setSmartTypographyEnabled_def)
    from markerFree_onHtmlReady [OF r h]
    show ?thesis using FutureFinished Cons f by simp
  qed
next
  case FilePathChanged
  have "markerFreeState (s\<lparr>baseUrl := b, effects := x\<rparr>)" for b x
    using assms(1) by (simp add: markerFreeState_def)
  then show ?thesis
    using FilePathChanged by (simp add: updateBaseDir_def Let_def markerFree_updatePreview)
next
  case (SetHtmlExporter e)
  have "markerFreeState (setHtmlContent [] (s\<lparr>exporter := e\<rparr>))"
    using assms SetHtmlExporter
    by (simp add: markerFreeState_def setHtmlContent_def anchor_nonempty)
  then show ?thesis
    using SetHtmlExporter by (simp add: setHtmlExporter_def markerFree_updatePreview)
next
  case (SetStyleSheet css)
  then show ?thesis using assms(1) by (simp add: setStyleSheet_def markerFreeState_def)
next
  case CloseEvent
  then show ?thesis
    using assms(1)
    by (simp add: closeEvent_def setHtmlContent_def Let_def markerFreeState_def anchor_nonempty)
qed

lemma markerFree_run:
  "markerFreeState s \<Longrightarrow> list_all (\<lambda>(env, ev). markerFreeEvent ev) evs \<Longrightarrow>
   markerFreeState (run evs s)"
  by (induction evs arbitrary: s) (auto simp: markerFree_fire)

lemma markerFree_updateBaseDir: "markerFreeState s \<Longrightarrow> markerFreeState (updateBaseDir env s)"
proof -
  assume a: "markerFreeState s"
  have "markerFreeState (s\<lparr>baseUrl := b, effects := x\<rparr>)" for b x
    using a by (simp add: markerFreeState_def)
  then show ?thesis
    by (simp add: updateBaseDir_def Let_def markerFree_updatePreview)
qed

lemma markerFree_new: "markerFreeOpt e \<Longrightarrow> markerFreeState (HtmlPreview_new env e c)"
  unfolding HtmlPreview_new_def
  by (rule markerFree_updateBaseDir) (simp add: markerFreeState_def anchor_nonempty)

lemma exampleExporter_markerFree: "markerFree exampleExporter"
  by (simp add: markerFree_def exampleExporter_def anchor_def sublist_Cons_right)

lemma updatePreview_vanilla:
  "\<not> updateInProgress s \<Longrightarrow>
   vanillaHtml (updatePreview env s) = (if isVisible env \<and> isEmpty env then [] else vanillaHtml s)"
  by (simp add: updatePreview_def setHtmlContent_def Let_def split: option.splits)

text \<open>
  \<^verbatim>\<open>onHtmlReady\<close> as a whole, when it publishes: it leaves the render in
  \<^verbatim>\<open>vanillaHtml\<close>, unless an update was asked for meanwhile and that next
  update, which \<^verbatim>\<open>onHtmlReady\<close> starts before it returns, finds the document
  empty in a visible widget and resets the content.
\<close>

lemma onHtmlReady_vanilla:
  assumes "fst (diffAnchor (textStream (vanillaHtml s)) (textStream html))"
  shows "vanillaHtml (onHtmlReady env html s)
           = (if updateAgain s \<and> isVisible env \<and> isEmpty env then [] else html)"
proof -
  define s3 where
    "s3 = (onHtmlReady_publish html s)\<lparr>updateInProgress := False, updateAgain := False\<rparr>"
  have i: "\<not> updateInProgress s3" and v: "vanillaHtml s3 = html"
    using assms by (simp_all add: s3_def publish_vanilla)
  show ?thesis
    using publish_fields [of html s] publish_vanilla [of html s] assms
      updatePreview_vanilla [OF i, of env] v
    by (simp add: onHtmlReady_def Let_def s3_def)
qed

lemma updatePreview_live:
  "\<not> updateInProgress s \<Longrightarrow>
   currentText (livePreviewHtml (updatePreview env s))
     = (if isVisible env \<and> isEmpty env then [] else currentText (livePreviewHtml s))"
  by (simp add: updatePreview_def setHtmlContent_def setText_def Let_def split: option.splits)

lemma onHtmlReady_live:
  assumes "fst (diffAnchor (textStream (vanillaHtml s)) (textStream html))"
  shows "currentText (livePreviewHtml (onHtmlReady env html s))
           = (if updateAgain s \<and> isVisible env \<and> isEmpty env then []
              else snd (diffAnchor (textStream (vanillaHtml s)) (textStream html)))"
proof -
  define s3 where
    "s3 = (onHtmlReady_publish html s)\<lparr>updateInProgress := False, updateAgain := False\<rparr>"
  have i: "\<not> updateInProgress s3"
    and v: "currentText (livePreviewHtml s3)
              = snd (diffAnchor (textStream (vanillaHtml s)) (textStream html))"
    using publish_live [OF assms] by (simp_all add: s3_def)
  show ?thesis
    using publish_fields [of html s] publish_live [OF assms]
      updatePreview_live [OF i, of env] v
    by (simp add: onHtmlReady_def Let_def s3_def)
qed

lemma publish_same_baseline:
  "vanillaHtml s = html \<Longrightarrow> onHtmlReady_publish html s = s"
  using diffAnchor_same [of "textStream html"] by (simp add: onHtmlReady_publish_def)

lemma fire_finished:
  "futures s = (t, e) # rest \<Longrightarrow>
   fire env FutureFinished s = onHtmlReady env (render e True t) (s\<lparr>futures := rest\<rparr>)"
  by (simp add: exportToHtml_def Exporter_exportToHtml_def smartTypographyEnabled_def
      setSmartTypographyEnabled_def)

text \<open>
  Claim C10, as stated, fails for \<^verbatim>\<open>onHtmlReady\<close> as a whole.  Here two
  calls of \<^verbatim>\<open>updatePreview\<close> arrive while the first render is running, the
  second after the document was emptied.  When the render is delivered,
  \<^verbatim>\<open>onHtmlReady\<close> publishes its anchored markup, and then calls
  \<^verbatim>\<open>updatePreview\<close>, which finds the document empty and resets the content:
  \<^verbatim>\<open>onHtmlReady\<close> returns with an empty \<^verbatim>\<open>vanillaHtml\<close>, not with the
  exporter's markup.
\<close>

theorem C10_baseline_counterexample:
  "futures (updatePreviewCalls [shown ''xy'', shown []] rendering) = [(''x'', exampleExporter)]
   \<and> fst (exportToHtml ''x'' exampleExporter) = ''<p>smart</p>''
   \<and> effectsSince (updatePreviewCalls [shown ''xy'', shown []] rendering)
        (fire (shown []) FutureFinished (updatePreviewCalls [shown ''xy'', shown []] rendering))
       = [SetHtmlContentCalled (anchor @ ''<p>smart</p>'' @ endl), UpdatePreviewCalled,
          SetHtmlContentCalled []]
   \<and> vanillaHtml (fire (shown []) FutureFinished
        (updatePreviewCalls [shown ''xy'', shown []] rendering)) = []"
  by (simp add: example_defs preview_defs effectsSince_def)

text \<open>
  Claim C10, amended.  When \<^verbatim>\<open>onHtmlReady\<close> publishes,
  \<^verbatim>\<open>setHtmlContent\<close> first stores the anchored markup in \<^verbatim>\<open>vanillaHtml\<close>,
  and line 321 then puts the render itself there.  When \<^verbatim>\<open>onHtmlReady\<close>
  returns, \<^verbatim>\<open>vanillaHtml\<close> is the exporter's markup and the published text
  is the anchored one, and delivering the same markup once more would publish
  nothing; except when an update was asked for during the render and the
  widget is visible and the document empty, where the call of
  \<^verbatim>\<open>updatePreview\<close> that ends \<^verbatim>\<open>onHtmlReady\<close> has reset both to the
  empty string.  The same holds of the \<^verbatim>\<open>finished\<close> signal that delivers
  the exporter's markup.  And when no exporter in use ever produces the anchor,
  \<^verbatim>\<open>vanillaHtml\<close> never contains it, whatever happens to the preview.
\<close>

theorem C10_baseline:
  assumes "markerFreeOpt e0" and "list_all (\<lambda>(env, ev). markerFreeEvent ev) evs"
  shows "(fst (diffAnchor (textStream (vanillaHtml s)) (textStream html)) \<longrightarrow>
            vanillaHtml (setHtmlContent (snd (diffAnchor (textStream (vanillaHtml s)) (textStream html))) s)
              = snd (diffAnchor (textStream (vanillaHtml s)) (textStream html))
          \<and> vanillaHtml (onHtmlReady_publish html s) = html
          \<and> currentText (livePreviewHtml (onHtmlReady_publish html s))
              = snd (diffAnchor (textStream (vanillaHtml s)) (textStream html))
          \<and> vanillaHtml (onHtmlReady env html s)
              = (if updateAgain s \<and> isVisible env \<and> isEmpty env then [] else html)
          \<and> currentText (livePreviewHtml (onHtmlReady env html s))
              = (if updateAgain s \<and> isVisible env \<and> isEmpty env then []
                 else snd (diffAnchor (textStream (vanillaHtml s)) (textStream html)))
          \<and> (\<not> (updateAgain s \<and> isVisible env \<and> isEmpty env) \<longrightarrow>
                onHtmlReady_publish html (onHtmlReady env html s) = onHtmlReady env html s))
       \<and> (futures s = (t, e) # rest
            \<and> fst (diffAnchor (textStream (vanillaHtml s)) (textStream (render e True t))) \<longrightarrow>
            vanillaHtml (fire env FutureFinished s)
              = (if updateAgain s \<and> isVisible env \<and> isEmpty env then [] else render e True t))
       \<and> onHtmlReady_publish html (onHtmlReady_publish html s) = onHtmlReady_publish html s
       \<and> \<not> sublist anchor (vanillaHtml (run evs (HtmlPreview_new env0 e0 c)))"
proof -
  have "markerFreeState (run evs (HtmlPreview_new env0 e0 c))"
    by (rule markerFree_run [OF markerFree_new [OF assms(1)] assms(2)])
  then have 4: "\<not> sublist anchor (vanillaHtml (run evs (HtmlPreview_new env0 e0 c)))"
    by (simp add: markerFreeState_def)
  have 3: "onHtmlReady_publish html (onHtmlReady_publish html s) = onHtmlReady_publish html s"
    by (rule publish_twice)
  have 2: "vanillaHtml (fire env FutureFinished s)
              = (if updateAgain s \<and> isVisible env \<and> isEmpty env then [] else render e True t)"
    if f: "futures s = (t, e) # rest"
      and d: "fst (diffAnchor (textStream (vanillaHtml s)) (textStream (render e True t)))"
  proof -
    have d': "fst (diffAnchor (textStream (vanillaHtml (s\<lparr>futures := rest\<rparr>)))
                (textStream (render e True t)))"
      using d by simp
    show ?thesis
      unfolding fire_finished [OF f]
      using onHtmlReady_vanilla [OF d', of env] by simp
  qed
  have 1: "vanillaHtml (setHtmlContent (snd (diffAnchor (textStream (vanillaHtml s)) (textStream html))) s)
              = snd (diffAnchor (textStream (vanillaHtml s)) (textStream html))
          \<and> vanillaHtml (onHtmlReady_publish html s) = html
          \<and> currentText (livePreviewHtml (onHtmlReady_publish html s))
              = snd (diffAnchor (textStream (vanillaHtml s)) (textStream html))
          \<and> vanillaHtml (onHtmlReady env html s)
              = (if updateAgain s \<and> isVisible env \<and> isEmpty env then [] else html)
          \<and> currentText (livePreviewHtml (onHtmlReady env html s))
              = (if updateAgain s \<and> isVisible env \<and> isEmpty env then []
                 else snd (diffAnchor (textStream (vanillaHtml s)) (textStream html)))
          \<and> (\<not> (updateAgain s \<and> isVisible env \<and> isEmpty env) \<longrightarrow>
                onHtmlReady_publish html (onHtmlReady env html s) = onHtmlReady env html s)"
    if d: "fst (diffAnchor (textStream (vanillaHtml s)) (textStream html))"
  proof -
    have a: "vanillaHtml (setHtmlContent x s) = x" for x by (simp add: setHtmlContent_def)
    have b: "vanillaHtml (onHtmlReady_publish html s) = html" using d by (simp add: publish_vanilla)
    note c = publish_live [OF d]
    note v = onHtmlReady_vanilla [OF d, of env]
    note l = onHtmlReady_live [OF d, of env]
    have r: "onHtmlReady_publish html (onHtmlReady env html s) = onHtmlReady env html s"
      if "\<not> (updateAgain s \<and> isVisible env \<and> isEmpty env)"
      using that v by (intro publish_same_baseline) auto
    show ?thesis using a b c v l r by blast
  qed
  from 1 2 3 4 show ?thesis by blast
qed

theorem C10_baseline_witness:
  "markerFreeOpt (Some exampleExporter)
   \<and> list_all (\<lambda>(env, ev). markerFreeEvent ev)
        [(shown ''x'', UpdatePreview), (shown ''x'', FutureFinished),
         (shown ''x'', SetHtmlExporter (Some exampleExporter)), (shown ''x'', FutureFinished)]
   \<and> fst (diffAnchor (textStream (vanillaHtml rendering)) (textStream ''<p>smart</p>''))
   \<and> \<not> updateAgain rendering
   \<and> futures rendering = [(''x'', exampleExporter)]
   \<and> vanillaHtml (onHtmlReady (shown ''x'') ''<p>smart</p>'' rendering) = ''<p>smart</p>''
   \<and> currentText (livePreviewHtml (onHtmlReady (shown ''x'') ''<p>smart</p>'' rendering))
        = anchor @ ''<p>smart</p>'' @ endl
   \<and> onHtmlReady_publish ''<p>smart</p>'' (onHtmlReady (shown ''x'') ''<p>smart</p>'' rendering)
        = onHtmlReady (shown ''x'') ''<p>smart</p>'' rendering
   \<and> vanillaHtml (fire (shown ''x'') FutureFinished rendering) = ''<p>smart</p>''
   \<and> updateAgain (updatePreviewCalls [shown ''xy'', shown []] rendering)
   \<and> isVisible (shown []) \<and> isEmpty (shown [])
   \<and> vanillaHtml (onHtmlReady (shown []) ''<p>smart</p>''
         (updatePreviewCalls [shown ''xy'', shown []] rendering)) = []
   \<and> \<not> sublist anchor (vanillaHtml (run
        [(shown ''x'', UpdatePreview), (shown ''x'', FutureFinished),
         (shown ''x'', SetHtmlExporter (Some exampleExporter)), (shown ''x'', FutureFinished)]
        (HtmlPreview_new (hidden ''x'') (Some exampleExporter) 0)))"
proof -
  have m: "markerFreeOpt (Some exampleExporter)" by (simp add: exampleExporter_markerFree)
  have l: "list_all (\<lambda>(env, ev). markerFreeEvent ev)
        [(shown ''x'', UpdatePreview), (shown ''x'', FutureFinished),
         (shown ''x'', SetHtmlExporter (Some exampleExporter)), (shown ''x'', FutureFinished)]"
    by (simp add: exampleExporter_markerFree)
  have v: "vanillaHtml rendering = []" by (simp add: rendering_def shown_def hidden_def preview_defs)
  have d: "diffAnchor (textStream (vanillaHtml rendering)) (textStream ''<p>smart</p>'')
             = (True, anchor @ ''<p>smart</p>'' @ endl)"
    by (simp add: v textStream_def diffAnchor_def chopCR_def)
  have f: "fst (diffAnchor (textStream (vanillaHtml rendering)) (textStream ''<p>smart</p>''))"
    by (simp add: d)
  have r: "render exampleExporter True ''x'' = ''<p>smart</p>''" by (simp add: exampleExporter_def)
  have u: "\<not> updateAgain rendering" and fu: "futures rendering = [(''x'', exampleExporter)]"
    using rendering_flags by simp_all
  have c: "updatePreviewCalls [shown ''xy'', shown []] rendering
             = rendering\<lparr>updateAgain := True,
                 effects := effects rendering @ [UpdatePreviewCalled, UpdatePreviewCalled]\<rparr>"
    using calls_in_flight [of rendering "[shown ''xy'', shown []]"] rendering_flags
    by (simp del: updatePreviewCalls.simps)
  have ua: "updateAgain (updatePreviewCalls [shown ''xy'', shown []] rendering)"
    by (simp add: c del: updatePreviewCalls.simps)
  have f': "fst (diffAnchor (textStream (vanillaHtml (updatePreviewCalls [shown ''xy'', shown []] rendering)))
              (textStream ''<p>smart</p>''))"
    using f by (simp add: c del: updatePreviewCalls.simps)
  have e: "isVisible (shown [])" "isEmpty (shown [])" "isVisible (shown ''x'')" "\<not> isEmpty (shown ''x'')"
    by (simp_all add: shown_def)
  note t = C10_baseline [OF m l, of rendering "''<p>smart</p>''" "shown ''x''" "''x''" exampleExporter "[]"
      "hidden ''x''" 0]
  note t' = C10_baseline [OF m l, of "updatePreviewCalls [shown ''xy'', shown []] rendering"
      "''<p>smart</p>''" "shown []" "''x''" exampleExporter "[]" "hidden ''x''" 0]
  have A: "vanillaHtml (onHtmlReady (shown ''x'') ''<p>smart</p>'' rendering) = ''<p>smart</p>''
     \<and> currentText (livePreviewHtml (onHtmlReady (shown ''x'') ''<p>smart</p>'' rendering))
        = anchor @ ''<p>smart</p>'' @ endl
     \<and> onHtmlReady_publish ''<p>smart</p>'' (onHtmlReady (shown ''x'') ''<p>smart</p>'' rendering)
        = onHtmlReady (shown ''x'') ''<p>smart</p>'' rendering"
    using t [THEN conjunct1] f u d by simp
  have B: "vanillaHtml (fire (shown ''x'') FutureFinished rendering) = ''<p>smart</p>''"
    using t [THEN conjunct2, THEN conjunct1] fu f u r by (simp del: fire.simps)
  have C: "vanillaHtml (onHtmlReady (shown []) ''<p>smart</p>''
         (updatePreviewCalls [shown ''xy'', shown []] rendering)) = []"
    using t' [THEN conjunct1] f' ua e by (simp del: updatePreviewCalls.simps)
  note D = t [THEN conjunct2, THEN conjunct2, THEN conjunct2]
  from m l f u fu A B ua e(1) e(2) C D show ?thesis by blast
qed

end
